theory Spec2Isabelle
  imports Complex_Main
begin

section \<open>Periodic numerical integration kernels (pbc/dft/numint.py)\<close>

text \<open>
  A shallow embedding of the three grid kernels \<open>eval_ao\<close>, \<open>eval_rho\<close>, \<open>eval_mat\<close> and
  of the adapter class \<open>_NumInt\<close>. Floating-point numbers are idealised as \<open>real\<close> and
  \<open>complex\<close>: every statement below is about exact arithmetic.
\<close>

subsection \<open>Errors and arrays\<close>

text \<open>
  The exceptions a call can end with. \<open>ValueError\<close> is what unpacking a shape of the wrong
  rank or combining arrays of different shapes raises, \<open>IndexError\<close> what indexing past an
  axis raises, \<open>ExternalError\<close> stands for any failure of a collaborator routine.
\<close>

datatype error = ValueError | IndexError | AssertionError | NotImplementedError
  | ExternalError

text \<open>
  A numpy array: its shape and its elements, read through a list of indices. The constructor
  of the buffer is the dtype, so a \<open>Float64\<close> array has no imaginary part to speak of.
  \<open>Int8\<close> is the dtype of the non-zero-shell table.
\<close>

datatype buffer = Int8 "nat list \<Rightarrow> int" | Float64 "nat list \<Rightarrow> real"
  | Complex128 "nat list \<Rightarrow> complex"

record ndarray =
  shape :: "nat list"
  data :: buffer

type_synonym vec3 = "real \<times> real \<times> real"
type_synonym int3 = "int \<times> int \<times> int"

subsection \<open>The periodic AO evaluator\<close>

text \<open>
  The fields of \<open>Cell\<close> that the kernels read: the image counts \<open>nimgs\<close>, the lattice
  matrix \<open>h\<close> (three rows), the number of basis functions \<open>nao_nr\<close> and of shells \<open>nbas\<close>.
  \<open>ao_shell\<close> gives the shell an AO index belongs to.
\<close>

record cell =
  nimgs :: int3
  h :: "vec3 \<times> vec3 \<times> vec3"
  nao_nr :: nat
  nbas :: nat
  ao_shell :: "nat \<Rightarrow> nat"

definition dot3 :: "vec3 \<Rightarrow> vec3 \<Rightarrow> real" where
  "dot3 u v = (case u of (u0, u1, u2) \<Rightarrow> case v of (v0, v1, v2) \<Rightarrow>
     u0 * v0 + u1 * v1 + u2 * v2)"

definition idot3 :: "int3 \<Rightarrow> int3 \<Rightarrow> int" where
  "idot3 u v = (case u of (u0, u1, u2) \<Rightarrow> case v of (v0, v1, v2) \<Rightarrow>
     u0 * v0 + u1 * v1 + u2 * v2)"

text \<open>\<open>np.dot(cell.h, T)\<close>: the lattice matrix applied to an integer triplet.\<close>

definition lattice_vec :: "vec3 \<times> vec3 \<times> vec3 \<Rightarrow> int3 \<Rightarrow> vec3" where
  "lattice_vec m T = (case m of (r0, r1, r2) \<Rightarrow> case T of (i, j, k) \<Rightarrow>
     (let t = (real_of_int i, real_of_int j, real_of_int k)
      in (dot3 r0 t, dot3 r1 t, dot3 r2 t)))"

text \<open>\<open>coords - L\<close>: every grid point shifted by the same vector.\<close>

definition shift :: "vec3 list \<Rightarrow> vec3 \<Rightarrow> vec3 list" where
  "shift coords L = map (\<lambda>c. case c of (x, y, z) \<Rightarrow> case L of (l0, l1, l2) \<Rightarrow>
     (x - l0, y - l1, z - l2)) coords"

text \<open>
  The list comprehension of lines 33 to 36: three nested ranges
  \<open>range(-nimgs[a], nimgs[a]+1)\<close> and the filter on the sum of squares.
\<close>

definition Ts :: "int3 \<Rightarrow> int3 list" where
  "Ts n = (case n of (n0, n1, n2) \<Rightarrow>
     concat (map (\<lambda>i.
       concat (map (\<lambda>j.
         concat (map (\<lambda>k.
           if real_of_int (i ^ 2 + j ^ 2 + k ^ 2) \<le> 1 / 3 * real_of_int (idot3 n n)
           then [(i, j, k)] else [])
         [- n2 .. n2]))
       [- n1 .. n1]))
     [- n0 .. n0]))"

text \<open>\<open>np.exp(1j*np.dot(kpt.T, L))\<close>.\<close>

definition phase :: "vec3 \<Rightarrow> vec3 \<Rightarrow> complex" where
  "phase kpt L = exp (\<i> * complex_of_real (dot3 kpt L))"

text \<open>
  The loop of lines 44 to 50. The molecular evaluator \<open>pyscf.dft.numint.eval_ao\<close> is a
  collaborator: it is the parameter \<open>mol_eval_ao\<close>, called with the cell, the shifted
  coordinates, \<open>isgga\<close> and the remaining options \<open>opts\<close> (relativity, bastart,
  bascount, non0tab, verbose), and returning real values or failing. A failure ends the
  loop, as the exception would.
\<close>

fun accumulate ::
  "(cell \<Rightarrow> vec3 list \<Rightarrow> bool \<Rightarrow> 'o \<Rightarrow> error + (nat list \<Rightarrow> real)) \<Rightarrow>
   cell \<Rightarrow> vec3 list \<Rightarrow> vec3 \<Rightarrow> bool \<Rightarrow> 'o \<Rightarrow> int3 list \<Rightarrow>
   (nat list \<Rightarrow> complex) \<Rightarrow> error + (nat list \<Rightarrow> complex)" where
  "accumulate mol_eval_ao c coords kpt isgga opts [] aoR = Inr aoR"
| "accumulate mol_eval_ao c coords kpt isgga opts (T # rest) aoR =
     (let L = lattice_vec (h c) T
      in case mol_eval_ao c (shift coords L) isgga opts of
           Inl e \<Rightarrow> Inl e
         | Inr v \<Rightarrow> accumulate mol_eval_ao c coords kpt isgga opts rest
                     (\<lambda>idx. aoR idx + phase kpt L * complex_of_real (v idx)))"

definition eval_ao ::
  "(cell \<Rightarrow> vec3 list \<Rightarrow> bool \<Rightarrow> 'o \<Rightarrow> error + (nat list \<Rightarrow> real)) \<Rightarrow>
   cell \<Rightarrow> vec3 list \<Rightarrow> vec3 option \<Rightarrow> bool \<Rightarrow> 'o \<Rightarrow> error + ndarray" where
  "eval_ao mol_eval_ao c coords kpt isgga opts =
     (let kpt' = (case kpt of None \<Rightarrow> (0, 0, 0) | Some k \<Rightarrow> k);
          nao = nao_nr c;
          shp = (if isgga then [4, length coords, nao] else [length coords, nao])
      in case accumulate mol_eval_ao c coords kpt' isgga opts (Ts (nimgs c)) (\<lambda>idx. 0) of
           Inl e \<Rightarrow> Inl e
         | Inr aoR \<Rightarrow> Inr \<lparr>shape = shp, data = Complex128 aoR\<rparr>)"

subsection \<open>Reading arrays\<close>

text \<open>\<open>a.real\<close>, \<open>a.imag\<close> and the element itself as a complex number.\<close>

definition real_part :: "ndarray \<Rightarrow> nat list \<Rightarrow> real" where
  "real_part a idx = (case data a of
       Int8 f \<Rightarrow> real_of_int (f idx)
     | Float64 f \<Rightarrow> f idx
     | Complex128 f \<Rightarrow> Re (f idx))"

definition imag_part :: "ndarray \<Rightarrow> nat list \<Rightarrow> real" where
  "imag_part a idx = (case data a of
       Int8 f \<Rightarrow> 0
     | Float64 f \<Rightarrow> 0
     | Complex128 f \<Rightarrow> Im (f idx))"

definition elem :: "ndarray \<Rightarrow> nat list \<Rightarrow> complex" where
  "elem a idx = Complex (real_part a idx) (imag_part a idx)"

definition is_complex128 :: "ndarray \<Rightarrow> bool" where
  "is_complex128 a = (case data a of Complex128 f \<Rightarrow> True | _ \<Rightarrow> False)"

text \<open>
  \<open>a[n]\<close>: the sub-array at index \<open>n\<close> of the leading axis. Indexing an array of rank 0
  or past the end of the axis raises IndexError.
\<close>

definition item :: "ndarray \<Rightarrow> nat \<Rightarrow> error + ndarray" where
  "item a n = (case shape a of
       [] \<Rightarrow> Inl IndexError
     | m # s \<Rightarrow>
         if n < m
         then Inr \<lparr>shape = s,
                   data = (case data a of
                       Int8 f \<Rightarrow> Int8 (\<lambda>idx. f (n # idx))
                     | Float64 f \<Rightarrow> Float64 (\<lambda>idx. f (n # idx))
                     | Complex128 f \<Rightarrow> Complex128 (\<lambda>idx. f (n # idx)))\<rparr>
         else Inl IndexError)"

text \<open>\<open>ngrids, nao = s\<close>: unpacking a shape that is not of length 2 raises ValueError.\<close>

definition unpack2 :: "nat list \<Rightarrow> error + nat \<times> nat" where
  "unpack2 s = (case s of [g, a] \<Rightarrow> Inr (g, a) | _ \<Rightarrow> Inl ValueError)"

text \<open>Lines 78 to 81 and 169 to 172: \<open>ao[0].shape\<close> in gradient mode, \<open>ao.shape\<close> otherwise.\<close>

definition grid_shape :: "ndarray \<Rightarrow> bool \<Rightarrow> error + nat \<times> nat" where
  "grid_shape ao isgga =
     (if isgga
      then (case item ao 0 of Inl e \<Rightarrow> Inl e | Inr ao0 \<Rightarrow> unpack2 (shape ao0))
      else unpack2 (shape ao))"

text \<open>
  Lines 83 to 85 and 174 to 176: the table as given, or all ones over
  \<open>(ngrids+BLKSIZE-1)//BLKSIZE\<close> blocks and \<open>mol.nbas\<close> shells. \<open>BLKSIZE\<close> is a constant
  of \<open>pyscf.dft.numint\<close> and a parameter here.
\<close>

definition default_non0tab :: "nat \<Rightarrow> cell \<Rightarrow> nat \<Rightarrow> ndarray option \<Rightarrow> ndarray" where
  "default_non0tab BLKSIZE mol ngrids non0tab = (case non0tab of
       None \<Rightarrow> \<lparr>shape = [(ngrids + BLKSIZE - 1) div BLKSIZE, nbas mol], data = Int8 (\<lambda>idx. 1)\<rparr>
     | Some t \<Rightarrow> t)"

subsection \<open>The real-arithmetic contraction primitives\<close>

text \<open>
  Whether the table lets the shell of basis function \<open>i\<close> through in the block of grid
  point \<open>p\<close>.
\<close>

definition non0 :: "nat \<Rightarrow> cell \<Rightarrow> ndarray \<Rightarrow> nat \<Rightarrow> nat \<Rightarrow> bool" where
  "non0 BLKSIZE mol non0tab p i = (elem non0tab [p div BLKSIZE, ao_shell mol i] \<noteq> 0)"

text \<open>
  Modelled from the spec: \<open>_dot_ao_dm\<close> of \<open>pyscf.dft.numint\<close>, which is not among the
  sources. It is the real contraction primitive of an orbital array with a matrix:
  \<open>numpy.dot(ao, dm)\<close>, the product of the \<open>ngrids \<times> nao\<close> array with the
  \<open>nao \<times> nao\<close> matrix, in which the shells that the table marks as vanishing in a block
  are skipped.
\<close>

definition dot_ao_dm ::
  "nat \<Rightarrow> cell \<Rightarrow> (nat \<Rightarrow> nat \<Rightarrow> real) \<Rightarrow> (nat \<Rightarrow> nat \<Rightarrow> real) \<Rightarrow> nat \<Rightarrow> nat \<Rightarrow> ndarray \<Rightarrow>
   nat \<Rightarrow> nat \<Rightarrow> real" where
  "dot_ao_dm BLKSIZE mol ao dm nao ngrids non0tab =
     (\<lambda>p j. \<Sum>i<nao. if non0 BLKSIZE mol non0tab p i then ao p i * dm i j else 0)"

text \<open>
  Modelled from the spec: \<open>_dot_ao_ao\<close> of \<open>pyscf.dft.numint\<close>, which is not among the
  sources. It is the real contraction primitive of two orbital arrays over the grid:
  \<open>numpy.dot(ao1.T, ao2)\<close>, an \<open>nao \<times> nao\<close> matrix, with the same skipping.
\<close>

definition dot_ao_ao ::
  "nat \<Rightarrow> cell \<Rightarrow> (nat \<Rightarrow> nat \<Rightarrow> real) \<Rightarrow> (nat \<Rightarrow> nat \<Rightarrow> real) \<Rightarrow> nat \<Rightarrow> nat \<Rightarrow> ndarray \<Rightarrow>
   nat \<Rightarrow> nat \<Rightarrow> real" where
  "dot_ao_ao BLKSIZE mol ao1 ao2 nao ngrids non0tab =
     (\<lambda>i j. \<Sum>p<ngrids. if non0 BLKSIZE mol non0tab p i \<and> non0 BLKSIZE mol non0tab p j
                         then ao1 p i * ao2 p j else 0)"

text \<open>\<open>numpy.einsum('pi,pi->p', a, c)\<close> on two \<open>ngrids \<times> nao\<close> arrays.\<close>

definition einsum_pi_pi_p ::
  "nat \<Rightarrow> (nat \<Rightarrow> nat \<Rightarrow> real) \<Rightarrow> (nat \<Rightarrow> nat \<Rightarrow> real) \<Rightarrow> nat \<Rightarrow> real" where
  "einsum_pi_pi_p nao a c = (\<lambda>p. \<Sum>i<nao. a p i * c p i)"

subsection \<open>The complex density evaluator\<close>

text \<open>
  The block that the source writes three times (lines 100 to 109, 115 to 123 and 129 to
  137): the four contractions of the real and imaginary parts of one orbital array with
  those of the density matrix, and their combination.
\<close>

definition contract_rho ::
  "nat \<Rightarrow> cell \<Rightarrow> nat \<Rightarrow> nat \<Rightarrow> ndarray \<Rightarrow>
   (nat \<Rightarrow> nat \<Rightarrow> real) \<Rightarrow> (nat \<Rightarrow> nat \<Rightarrow> real) \<Rightarrow> (nat \<Rightarrow> nat \<Rightarrow> real) \<Rightarrow> (nat \<Rightarrow> nat \<Rightarrow> real) \<Rightarrow>
   nat \<Rightarrow> real" where
  "contract_rho BLKSIZE mol nao ngrids non0tab ao_re ao_im dm_re dm_im =
     (let c_rr = dot_ao_dm BLKSIZE mol ao_re dm_re nao ngrids non0tab;
          c_ri = dot_ao_dm BLKSIZE mol ao_im dm_re nao ngrids non0tab;
          c_ir = dot_ao_dm BLKSIZE mol ao_re dm_im nao ngrids non0tab;
          c_ii = dot_ao_dm BLKSIZE mol ao_im dm_im nao ngrids non0tab
      in (\<lambda>p. einsum_pi_pi_p nao ao_im c_ri p +
               einsum_pi_pi_p nao ao_re c_rr p +
               einsum_pi_pi_p nao ao_im c_ir p -
               einsum_pi_pi_p nao ao_re c_ii p))"

text \<open>
  Lines 89 to 137, the branch taken by \<open>if True\<close>. A density matrix that is not
  \<open>nao \<times> nao\<close> makes the contraction primitive fail with a shape mismatch. In gradient
  mode the rows \<open>ao[1]\<close>, \<open>ao[2]\<close>, \<open>ao[3]\<close> are read, which raises IndexError on a leading
  axis shorter than 4.
\<close>

definition eval_rho_complex ::
  "nat \<Rightarrow> cell \<Rightarrow> ndarray \<Rightarrow> ndarray \<Rightarrow> ndarray \<Rightarrow> bool \<Rightarrow> nat \<Rightarrow> nat \<Rightarrow> error + ndarray" where
  "eval_rho_complex BLKSIZE mol ao dm non0tab isgga ngrids nao =
     (let dm_re = (\<lambda>i j. real_part dm [i, j]);
          dm_im = (\<lambda>i j. imag_part dm [i, j])
      in if shape dm \<noteq> [nao, nao] then Inl ValueError
         else if isgga
         then (if (case shape ao of [] \<Rightarrow> 0 | n # _ \<Rightarrow> n) < 4 then Inl IndexError
               else Inr \<lparr>shape = [4, ngrids],
                         data = Float64 (\<lambda>idx.
                           let i = idx ! 0;
                               ao_re = (\<lambda>p j. real_part ao [i, p, j]);
                               ao_im = (\<lambda>p j. imag_part ao [i, p, j])
                           in if i = 0
                              then contract_rho BLKSIZE mol nao ngrids non0tab
                                     ao_re ao_im dm_re dm_im (idx ! 1)
                              else contract_rho BLKSIZE mol nao ngrids non0tab
                                     ao_re ao_im dm_re dm_im (idx ! 1) * 2)\<rparr>)
         else (let ao_re = (\<lambda>p j. real_part ao [p, j]);
                   ao_im = (\<lambda>p j. imag_part ao [p, j])
               in Inr \<lparr>shape = [ngrids],
                       data = Float64 (\<lambda>idx.
                         contract_rho BLKSIZE mol nao ngrids non0tab
                           ao_re ao_im dm_re dm_im (idx ! 0))\<rparr>))"

text \<open>
  \<open>eval_rho\<close>, lines 53 to 142. The molecular routine \<open>pyscf.dft.numint.eval_rho\<close> of the
  \<open>else\<close> branch is the parameter \<open>mol_eval_rho\<close>. The test of the dtype is commented
  out in the source and replaced by \<open>if True\<close>.
\<close>

definition eval_rho ::
  "(cell \<Rightarrow> ndarray \<Rightarrow> ndarray \<Rightarrow> ndarray \<Rightarrow> bool \<Rightarrow> 'v \<Rightarrow> error + ndarray) \<Rightarrow>
   nat \<Rightarrow> cell \<Rightarrow> ndarray \<Rightarrow> ndarray \<Rightarrow> ndarray option \<Rightarrow> bool \<Rightarrow> 'v \<Rightarrow> error + ndarray" where
  "eval_rho mol_eval_rho BLKSIZE mol ao dm non0tab isgga verbose =
     (case grid_shape ao isgga of
        Inl e \<Rightarrow> Inl e
      | Inr (ngrids, nao) \<Rightarrow>
          (let non0tab' = default_non0tab BLKSIZE mol ngrids non0tab
           in if True
              then eval_rho_complex BLKSIZE mol ao dm non0tab' isgga ngrids nao
              else mol_eval_rho mol ao dm non0tab' isgga verbose))"

subsection \<open>The complex potential-matrix evaluator\<close>

text \<open>
  Lines 186 to 189: \<open>wv\<close> has the shape of \<open>rho\<close>, its row 0 is \<open>weight * vrho * .5\<close>, its
  other rows are those of \<open>rho\<close> times \<open>weight * vsigma * 2\<close>; \<open>aow\<close> sums
  \<open>ao[n] * wv[n]\<close> over the leading axis (\<open>einsum('npi,np->pi', ao, wv)\<close>).
\<close>

definition wv_gga ::
  "(nat \<Rightarrow> real) \<Rightarrow> ndarray \<Rightarrow> (nat \<Rightarrow> real) \<Rightarrow> (nat \<Rightarrow> real) \<Rightarrow> nat \<Rightarrow> nat \<Rightarrow> complex" where
  "wv_gga weight rho vrho vsigma =
     (\<lambda>n p. if n = 0 then complex_of_real (weight p * vrho p * (1 / 2))
             else elem rho [n, p] * complex_of_real (weight p * vsigma p * 2))"

definition einsum_npi_np_pi ::
  "nat \<Rightarrow> ndarray \<Rightarrow> (nat \<Rightarrow> nat \<Rightarrow> complex) \<Rightarrow> nat \<Rightarrow> nat \<Rightarrow> complex" where
  "einsum_npi_np_pi ncomp ao wv = (\<lambda>p i. \<Sum>n<ncomp. elem ao [n, p, i] * wv n p)"

text \<open>Lines 207 to 215: the four contractions, the assembly and the symmetrisation.\<close>

definition assemble_mat ::
  "nat \<Rightarrow> cell \<Rightarrow> nat \<Rightarrow> nat \<Rightarrow> ndarray \<Rightarrow>
   (nat \<Rightarrow> nat \<Rightarrow> real) \<Rightarrow> (nat \<Rightarrow> nat \<Rightarrow> real) \<Rightarrow> (nat \<Rightarrow> nat \<Rightarrow> real) \<Rightarrow> (nat \<Rightarrow> nat \<Rightarrow> real) \<Rightarrow>
   ndarray" where
  "assemble_mat BLKSIZE mol nao ngrids non0tab ao_re ao_im aow_re aow_im =
     (let mat_re = (\<lambda>i j. dot_ao_ao BLKSIZE mol ao_re aow_re nao ngrids non0tab i j +
                           dot_ao_ao BLKSIZE mol ao_im aow_im nao ngrids non0tab i j);
          mat_im = (\<lambda>i j. dot_ao_ao BLKSIZE mol ao_re aow_im nao ngrids non0tab i j -
                           dot_ao_ao BLKSIZE mol ao_im aow_re nao ngrids non0tab i j);
          mat = (\<lambda>i j. complex_of_real (mat_re i j) + \<i> * complex_of_real (mat_im i j))
      in \<lparr>shape = [nao, nao],
          data = Complex128 (\<lambda>idx. mat (idx ! 0) (idx ! 1) + cnj (mat (idx ! 1) (idx ! 0)))\<rparr>)"

text \<open>
  Lines 178 to 215, the branch of complex orbitals. In gradient mode the assertion comes
  first; then \<open>wv[0]\<close> needs \<open>rho\<close> to have a row, and the einsum needs the two leading
  axes of \<open>ao\<close> to be the shape of \<open>rho\<close>.
\<close>

definition eval_mat_complex ::
  "nat \<Rightarrow> cell \<Rightarrow> ndarray \<Rightarrow> (nat \<Rightarrow> real) \<Rightarrow> ndarray \<Rightarrow> (nat \<Rightarrow> real) \<Rightarrow>
   (nat \<Rightarrow> real) option \<Rightarrow> ndarray \<Rightarrow> bool \<Rightarrow> nat \<Rightarrow> nat \<Rightarrow> error + ndarray" where
  "eval_mat_complex BLKSIZE mol ao weight rho vrho vsigma non0tab isgga ngrids nao =
     (if isgga
      then (if \<not> (vsigma \<noteq> None \<and> length (shape rho) = 2) then Inl AssertionError
            else if hd (shape rho) = 0 then Inl IndexError
            else if shape rho \<noteq> take 2 (shape ao) then Inl ValueError
            else (let wv = wv_gga weight rho vrho (the vsigma);
                      aow = einsum_npi_np_pi (hd (shape rho)) ao wv;
                      ao_re = (\<lambda>p i. real_part ao [0, p, i]);
                      ao_im = (\<lambda>p i. imag_part ao [0, p, i]);
                      aow_re = (\<lambda>p i. Re (aow p i));
                      aow_im = (\<lambda>p i. Im (aow p i))
                  in Inr (assemble_mat BLKSIZE mol nao ngrids non0tab
                            ao_re ao_im aow_re aow_im)))
      else (let ao_re = (\<lambda>p i. real_part ao [p, i]);
                ao_im = (\<lambda>p i. imag_part ao [p, i]);
                aow_re = (\<lambda>p i. ao_re p i * (1 / 2 * weight p * vrho p));
                aow_im = (\<lambda>p i. ao_im p i * (1 / 2 * weight p * vrho p))
            in Inr (assemble_mat BLKSIZE mol nao ngrids non0tab
                      ao_re ao_im aow_re aow_im)))"

text \<open>
  \<open>eval_mat\<close>, lines 144 to 221. The molecular routine \<open>pyscf.dft.numint.eval_mat\<close> of
  the \<open>else\<close> branch is the parameter \<open>mol_eval_mat\<close>; the source calls it with
  \<open>vsigma=None, non0tab=None, isgga=False, verbose=None\<close>.
\<close>

definition eval_mat ::
  "(cell \<Rightarrow> ndarray \<Rightarrow> (nat \<Rightarrow> real) \<Rightarrow> ndarray \<Rightarrow> (nat \<Rightarrow> real) \<Rightarrow> (nat \<Rightarrow> real) option \<Rightarrow>
    ndarray option \<Rightarrow> bool \<Rightarrow> 'v option \<Rightarrow> error + ndarray) \<Rightarrow>
   nat \<Rightarrow> cell \<Rightarrow> ndarray \<Rightarrow> (nat \<Rightarrow> real) \<Rightarrow> ndarray \<Rightarrow> (nat \<Rightarrow> real) \<Rightarrow> (nat \<Rightarrow> real) option \<Rightarrow>
   ndarray option \<Rightarrow> bool \<Rightarrow> 'v option \<Rightarrow> error + ndarray" where
  "eval_mat mol_eval_mat BLKSIZE mol ao weight rho vrho vsigma non0tab isgga verbose =
     (case grid_shape ao isgga of
        Inl e \<Rightarrow> Inl e
      | Inr (ngrids, nao) \<Rightarrow>
          (let non0tab' = default_non0tab BLKSIZE mol ngrids non0tab
           in case item ao 0 of
                Inl e \<Rightarrow> Inl e
              | Inr ao0 \<Rightarrow>
                  if is_complex128 ao0
                  then eval_mat_complex BLKSIZE mol ao weight rho vrho vsigma non0tab'
                         isgga ngrids nao
                  else mol_eval_mat mol ao weight rho vrho None None False None))"

subsection \<open>The k-point adapter\<close>

text \<open>The state of \<open>_NumInt\<close>: the bound k-point, \<open>None\<close> for the zero-momentum point.\<close>

record numint =
  kpt :: "vec3 option"

text \<open>
  Lines 232 to 238 and 257 to 261: the methods that pass their arguments on to the kernels,
  \<open>eval_ao\<close> with the bound k-point.
\<close>

definition NumInt_eval_ao ::
  "(cell \<Rightarrow> vec3 list \<Rightarrow> bool \<Rightarrow> 'o \<Rightarrow> error + (nat list \<Rightarrow> real)) \<Rightarrow>
   numint \<Rightarrow> cell \<Rightarrow> vec3 list \<Rightarrow> bool \<Rightarrow> 'o \<Rightarrow> error + ndarray" where
  "NumInt_eval_ao mol_eval_ao self mol coords isgga opts =
     eval_ao mol_eval_ao mol coords (kpt self) isgga opts"

definition NumInt_eval_rho ::
  "(cell \<Rightarrow> ndarray \<Rightarrow> ndarray \<Rightarrow> ndarray \<Rightarrow> bool \<Rightarrow> 'v \<Rightarrow> error + ndarray) \<Rightarrow>
   nat \<Rightarrow> numint \<Rightarrow> cell \<Rightarrow> ndarray \<Rightarrow> ndarray \<Rightarrow> ndarray option \<Rightarrow> bool \<Rightarrow> 'v \<Rightarrow>
   error + ndarray" where
  "NumInt_eval_rho mol_eval_rho BLKSIZE self mol ao dm non0tab isgga verbose =
     eval_rho mol_eval_rho BLKSIZE mol ao dm non0tab isgga verbose"

definition NumInt_eval_mat ::
  "(cell \<Rightarrow> ndarray \<Rightarrow> (nat \<Rightarrow> real) \<Rightarrow> ndarray \<Rightarrow> (nat \<Rightarrow> real) \<Rightarrow> (nat \<Rightarrow> real) option \<Rightarrow>
    ndarray option \<Rightarrow> bool \<Rightarrow> 'v option \<Rightarrow> error + ndarray) \<Rightarrow>
   nat \<Rightarrow> numint \<Rightarrow> cell \<Rightarrow> ndarray \<Rightarrow> (nat \<Rightarrow> real) \<Rightarrow> ndarray \<Rightarrow> (nat \<Rightarrow> real) \<Rightarrow>
   (nat \<Rightarrow> real) option \<Rightarrow> ndarray option \<Rightarrow> bool \<Rightarrow> 'v option \<Rightarrow> error + ndarray" where
  "NumInt_eval_mat mol_eval_mat BLKSIZE self mol ao weight rho vrho vsigma non0tab isgga verbose =
     eval_mat mol_eval_mat BLKSIZE mol ao weight rho vrho vsigma non0tab isgga verbose"

text \<open>Lines 240 to 241 and 253 to 255: the body is a single \<open>raise\<close>.\<close>

definition eval_rho2 ::
  "numint \<Rightarrow> cell \<Rightarrow> ndarray \<Rightarrow> ndarray \<Rightarrow> 'm option \<Rightarrow> bool \<Rightarrow> 'v \<Rightarrow> error + ndarray" where
  "eval_rho2 self mol ao dm non0tab isgga verbose = Inl NotImplementedError"

definition nr_uks ::
  "numint \<Rightarrow> cell \<Rightarrow> 'g \<Rightarrow> 'x \<Rightarrow> 'x \<Rightarrow> 'd \<Rightarrow> int \<Rightarrow> int \<Rightarrow> 'v \<Rightarrow> error + 'r" where
  "nr_uks self mol grids x_id c_id dms hermi max_memory verbose = Inl NotImplementedError"

subsection \<open>The quantities the specification names\<close>

text \<open>
  The combination of section 4.2 in the specification's words: the sum of \<open>Ai \<odot> Cri\<close>,
  of \<open>Ar \<odot> Crr\<close> and of \<open>Ai \<odot> Cir\<close>, minus the sum of \<open>Ar \<odot> Cii\<close>, where
  \<open>\<odot>\<close> multiplies elementwise and sums over the basis index at one grid point.
\<close>

definition four_term ::
  "nat \<Rightarrow> (nat \<Rightarrow> nat \<Rightarrow> real) \<Rightarrow> (nat \<Rightarrow> nat \<Rightarrow> real) \<Rightarrow>
   (nat \<Rightarrow> nat \<Rightarrow> real) \<Rightarrow> (nat \<Rightarrow> nat \<Rightarrow> real) \<Rightarrow> (nat \<Rightarrow> nat \<Rightarrow> real) \<Rightarrow> (nat \<Rightarrow> nat \<Rightarrow> real) \<Rightarrow>
   nat \<Rightarrow> real" where
  "four_term nao Ar Ai Crr Cri Cir Cii p =
     (\<Sum>i<nao. Ai p i * Cri p i) + (\<Sum>i<nao. Ar p i * Crr p i) +
     (\<Sum>i<nao. Ai p i * Cir p i) - (\<Sum>i<nao. Ar p i * Cii p i)"

text \<open>
  The expectation of the density matrix in the orbital values \<open>a\<close> of one grid point. The
  bra is the row of the orbital array at that point and the ket its conjugate transpose,
  so the expectation is \<open>a D a\<^sup>H\<close>: the cross term of two basis functions with values
  \<open>a\<close> and \<open>b\<close> is \<open>a \<cdot> conj(b) \<cdot> D[0,1]\<close>, as in the two-function scenario of the
  specification's section 8.
\<close>

definition quad_form :: "nat \<Rightarrow> (nat \<Rightarrow> complex) \<Rightarrow> (nat \<Rightarrow> nat \<Rightarrow> complex) \<Rightarrow> complex" where
  "quad_form nao a D = (\<Sum>i<nao. \<Sum>j<nao. a i * D i j * cnj (a j))"

subsection \<open>Example inputs\<close>

text \<open>\<open>numpy.array(rows, dtype=complex128)\<close> for a list of rows and for a list of planes.\<close>

definition complex_array2 :: "complex list list \<Rightarrow> ndarray" where
  "complex_array2 rows =
     \<lparr>shape = (case rows of [] \<Rightarrow> [0] | r # _ \<Rightarrow> [length rows, length r]),
      data = Complex128 (\<lambda>idx. rows ! (idx ! 0) ! (idx ! 1))\<rparr>"

definition complex_array3 :: "complex list list list \<Rightarrow> ndarray" where
  "complex_array3 planes =
     \<lparr>shape = (case planes of
                 [] \<Rightarrow> [0]
               | [] # _ \<Rightarrow> [length planes, 0]
               | (r # _) # _ \<Rightarrow> [length planes, length (hd planes), length r]),
      data = Complex128 (\<lambda>idx. planes ! (idx ! 0) ! (idx ! 1) ! (idx ! 2))\<rparr>"

definition real_array2 :: "real list list \<Rightarrow> ndarray" where
  "real_array2 rows =
     \<lparr>shape = (case rows of [] \<Rightarrow> [0] | r # _ \<Rightarrow> [length rows, length r]),
      data = Float64 (\<lambda>idx. rows ! (idx ! 0) ! (idx ! 1))\<rparr>"

text \<open>A cell with the identity lattice, no image beyond the cell itself, two s shells.\<close>

definition cubic_cell :: cell where
  "cubic_cell = \<lparr>nimgs = (0, 0, 0), h = ((1, 0, 0), (0, 1, 0), (0, 0, 1)),
                 nao_nr = 2, nbas = 2, ao_shell = (\<lambda>i. i)\<rparr>"

text \<open>Collaborators that fail, and one molecular AO evaluator that returns a constant.\<close>

definition no_eval_rho ::
  "cell \<Rightarrow> ndarray \<Rightarrow> ndarray \<Rightarrow> ndarray \<Rightarrow> bool \<Rightarrow> unit \<Rightarrow> error + ndarray" where
  "no_eval_rho mol ao dm non0tab isgga verbose = Inl ExternalError"

definition no_eval_mat ::
  "cell \<Rightarrow> ndarray \<Rightarrow> (nat \<Rightarrow> real) \<Rightarrow> ndarray \<Rightarrow> (nat \<Rightarrow> real) \<Rightarrow> (nat \<Rightarrow> real) option \<Rightarrow>
   ndarray option \<Rightarrow> bool \<Rightarrow> unit option \<Rightarrow> error + ndarray" where
  "no_eval_mat mol ao weight rho vrho vsigma non0tab isgga verbose = Inl ExternalError"

definition const_eval_ao :: "cell \<Rightarrow> vec3 list \<Rightarrow> bool \<Rightarrow> unit \<Rightarrow> error + (nat list \<Rightarrow> real)" where
  "const_eval_ao c coords isgga opts = Inr (\<lambda>idx. 2)"

definition ones :: "nat \<Rightarrow> real" where
  "ones p = 1"

section \<open>Properties\<close>

subsection \<open>The image set\<close>

lemma set_Ts:
  "set (Ts (n0, n1, n2)) =
     {(i, j, k). - n0 \<le> i \<and> i \<le> n0 \<and> - n1 \<le> j \<and> j \<le> n1 \<and> - n2 \<le> k \<and> k \<le> n2 \<and>
        real_of_int (i ^ 2 + j ^ 2 + k ^ 2) \<le> 1 / 3 * real_of_int (n0 * n0 + n1 * n1 + n2 * n2)}"
  by (auto simp: Ts_def idot3_def)

text \<open>
  Claim C3, as stated: the image set of \<open>eval_ao\<close> is the set of all integer triplets
  whose sum of squares is at most a third of \<open>nimgs \<cdot> nimgs\<close>, with no other restriction.
  It fails for image counts that differ: with \<open>nimgs = (1, 1, 4)\<close> the bound is 6 and the
  triplet \<open>(2, 0, 0)\<close> satisfies the criterion, but \<open>i\<close> only runs over
  \<open>range(-1, 2)\<close>.
\<close>

theorem Ts_all_triplets_counterexample:
  "real_of_int (2 ^ 2 + 0 ^ 2 + 0 ^ 2) \<le> 1 / 3 * real_of_int (idot3 (1, 1, 4) (1, 1, 4)) \<and>
   (2, 0, 0) \<notin> set (Ts (1, 1, 4))"
  by (simp add: set_Ts idot3_def)

text \<open>
  Claim C3, amended: the image set of \<open>eval_ao\<close> is the set of the integer triplets
  \<open>(i, j, k)\<close> inside the box \<open>|i| \<le> nimgs[0]\<close>, \<open>|j| \<le> nimgs[1]\<close>,
  \<open>|k| \<le> nimgs[2]\<close> whose sum of squares is at most a third of \<open>nimgs \<cdot> nimgs\<close>.
\<close>

theorem Ts_box_and_sphere:
  "set (Ts (n0, n1, n2)) =
     {(i, j, k). \<bar>i\<bar> \<le> n0 \<and> \<bar>j\<bar> \<le> n1 \<and> \<bar>k\<bar> \<le> n2 \<and>
        real_of_int (i ^ 2 + j ^ 2 + k ^ 2) \<le> 1 / 3 * real_of_int (idot3 (n0, n1, n2) (n0, n1, n2))}"
  unfolding set_Ts by (auto simp: idot3_def)

subsection \<open>One image, no k-point\<close>

lemma shift_zero: "shift coords (0, 0, 0) = coords"
  by (simp add: shift_def split_def)

lemma lattice_vec_zero: "lattice_vec m (0, 0, 0) = (0, 0, 0)"
  by (simp add: lattice_vec_def dot3_def split: prod.splits)

lemma Ts_zero: "Ts (0, 0, 0) = [(0, 0, 0)]"
  by (simp add: Ts_def idot3_def)

lemma phase_zero: "phase k (0, 0, 0) = 1"
  by (simp add: phase_def dot3_def split: prod.splits)

text \<open>
  Claim C5: with \<open>nimgs = (0, 0, 0)\<close> and no k-point, \<open>eval_ao\<close> returns what the
  molecular evaluator returns at the unshifted coordinates, cast to complex numbers
  (and fails as the molecular evaluator fails).
\<close>

theorem eval_ao_gamma_single_image:
  "nimgs c = (0, 0, 0) \<Longrightarrow>
   eval_ao mol_eval_ao c coords None isgga opts =
     (case mol_eval_ao c coords isgga opts of
        Inl e \<Rightarrow> Inl e
      | Inr v \<Rightarrow> Inr \<lparr>shape = (if isgga then [4, length coords, nao_nr c]
                                else [length coords, nao_nr c]),
                       data = Complex128 (\<lambda>idx. complex_of_real (v idx))\<rparr>)"
  by (simp add: eval_ao_def Ts_zero lattice_vec_zero shift_zero phase_zero split: sum.splits)

theorem eval_ao_gamma_single_image_witness:
  "nimgs cubic_cell = (0, 0, 0) \<and>
   eval_ao const_eval_ao cubic_cell [(0, 0, 0)] None False ()
     = Inr \<lparr>shape = [1, 2], data = Complex128 (\<lambda>idx. 2)\<rparr>"
  using eval_ao_gamma_single_image [of cubic_cell const_eval_ao "[(0, 0, 0)]" False "()"]
  by (simp add: cubic_cell_def const_eval_ao_def)

subsection \<open>The adapter's unimplemented entry points\<close>

text \<open>
  Claim C9: \<open>nr_uks\<close> and \<open>eval_rho2\<close> end with NotImplementedError on every input; no
  value is returned and no other routine is called.
\<close>

theorem unimplemented_entry_points:
  "nr_uks self mol grids x_id c_id dms hermi max_memory verbose = Inl NotImplementedError \<and>
   eval_rho2 self mol ao dm non0tab isgga verbose' = Inl NotImplementedError"
  by (simp add: nr_uks_def eval_rho2_def)

subsection \<open>Reading the kernels' arguments\<close>

lemma grid_shape_2d: "shape ao = [g, a] \<Longrightarrow> grid_shape ao False = Inr (g, a)"
  by (simp add: grid_shape_def unpack2_def)

lemma grid_shape_3d: "shape ao = [n, g, a] \<Longrightarrow> 0 < n \<Longrightarrow> grid_shape ao True = Inr (g, a)"
  by (simp add: grid_shape_def unpack2_def item_def)

lemma elem_Complex: "elem a idx = Complex (real_part a idx) (imag_part a idx)"
  by (simp add: elem_def)

lemma real_part_Float64: "real_part \<lparr>shape = s, data = Float64 f\<rparr> idx = f idx"
  by (simp add: real_part_def)

lemma elem_Complex128: "elem \<lparr>shape = s, data = Complex128 f\<rparr> idx = f idx"
  by (simp add: elem_def real_part_def imag_part_def)

lemma item_is_complex128: "item ao n = Inr ao0 \<Longrightarrow> is_complex128 ao0 = is_complex128 ao"
  by (auto simp: item_def is_complex128_def split: list.splits if_splits buffer.splits)

text \<open>The table of ones lets every shell through.\<close>

lemma non0_default: "non0 B mol (default_non0tab B mol g None) p i"
  by (simp add: non0_def default_non0tab_def elem_def real_part_def imag_part_def
      complex_eq_iff)

lemma dot_ao_dm_default:
  "dot_ao_dm B mol a d nao ngrids (default_non0tab B mol g None) p j = (\<Sum>i<nao. a p i * d i j)"
  by (simp add: dot_ao_dm_def non0_default)

lemma dot_ao_ao_default:
  "dot_ao_ao B mol a1 a2 nao ngrids (default_non0tab B mol g None) i j =
     (\<Sum>p<ngrids. a1 p i * a2 p j)"
  by (simp add: dot_ao_ao_def non0_default)

subsection \<open>The density\<close>

lemma contract_rho_four_term:
  "contract_rho B mol nao ngrids tab Ar Ai Dr Di p =
     four_term nao Ar Ai
       (dot_ao_dm B mol Ar Dr nao ngrids tab) (dot_ao_dm B mol Ai Dr nao ngrids tab)
       (dot_ao_dm B mol Ar Di nao ngrids tab) (dot_ao_dm B mol Ai Di nao ngrids tab) p"
  by (simp add: contract_rho_def four_term_def einsum_pi_pi_p_def)

lemma Re_term:
  "Re (Complex ar ai * Complex dr di * cnj (Complex br bi)) =
     ai * dr * bi + ar * dr * br + ar * di * bi - ai * di * br"
  by (simp add: algebra_simps)

text \<open>
  With every shell active the combination is the real part of the expectation, whatever
  the symmetry of the matrix.
\<close>

lemma contract_rho_quad_form:
  "contract_rho B mol nao ngrids (default_non0tab B mol g None) Ar Ai Dr Di p =
     Re (quad_form nao (\<lambda>i. Complex (Ar p i) (Ai p i)) (\<lambda>i j. Complex (Dr i j) (Di i j)))"
proof -
  have "contract_rho B mol nao ngrids (default_non0tab B mol g None) Ar Ai Dr Di p =
      (\<Sum>j<nao. \<Sum>i<nao. Ai p i * Dr i j * Ai p j + Ar p i * Dr i j * Ar p j
                          + Ar p i * Di i j * Ai p j - Ai p i * Di i j * Ar p j)"
    by (simp add: contract_rho_def einsum_pi_pi_p_def dot_ao_dm_default sum_distrib_left
        sum.distrib sum_subtractf mult_ac)
  also have "\<dots> = (\<Sum>i<nao. \<Sum>j<nao. Ai p i * Dr i j * Ai p j + Ar p i * Dr i j * Ar p j
                          + Ar p i * Di i j * Ai p j - Ai p i * Di i j * Ar p j)"
    by (rule sum.swap)
  also have "\<dots> =
      Re (quad_form nao (\<lambda>i. Complex (Ar p i) (Ai p i)) (\<lambda>i j. Complex (Dr i j) (Di i j)))"
    unfolding quad_form_def Re_sum Re_term by simp
  finally show ?thesis .
qed

text \<open>
  In the notation of column vectors the expectation is that of the transposed matrix:
  the conjugate sits on the second index.
\<close>

lemma quad_form_transposed:
  "quad_form nao a D = (\<Sum>i<nao. \<Sum>j<nao. cnj (a i) * D j i * a j)"
proof -
  have "quad_form nao a D = (\<Sum>j<nao. \<Sum>i<nao. a i * D i j * cnj (a j))"
    unfolding quad_form_def by (rule sum.swap)
  then show ?thesis
    by (simp add: mult_ac)
qed

lemma eval_rho_value_eq:
  assumes "shape ao = [ngrids, nao]" and "shape dm = [nao, nao]"
  shows "eval_rho mol_eval_rho B mol ao dm non0tab False verbose =
           Inr \<lparr>shape = [ngrids],
                data = Float64 (\<lambda>idx.
                  contract_rho B mol nao ngrids (default_non0tab B mol ngrids non0tab)
                    (\<lambda>p j. real_part ao [p, j]) (\<lambda>p j. imag_part ao [p, j])
                    (\<lambda>i j. real_part dm [i, j]) (\<lambda>i j. imag_part dm [i, j]) (idx ! 0))\<rparr>"
  using assms by (simp add: eval_rho_def grid_shape_2d eval_rho_complex_def)

lemma eval_rho_gradient_eq:
  assumes "shape ao = [n, ngrids, nao]" and "4 \<le> n" and "shape dm = [nao, nao]"
  shows "eval_rho mol_eval_rho B mol ao dm non0tab True verbose =
           Inr \<lparr>shape = [4, ngrids],
                data = Float64 (\<lambda>idx.
                  if idx ! 0 = 0
                  then contract_rho B mol nao ngrids (default_non0tab B mol ngrids non0tab)
                         (\<lambda>p j. real_part ao [idx ! 0, p, j]) (\<lambda>p j. imag_part ao [idx ! 0, p, j])
                         (\<lambda>i j. real_part dm [i, j]) (\<lambda>i j. imag_part dm [i, j]) (idx ! 1)
                  else contract_rho B mol nao ngrids (default_non0tab B mol ngrids non0tab)
                         (\<lambda>p j. real_part ao [idx ! 0, p, j]) (\<lambda>p j. imag_part ao [idx ! 0, p, j])
                         (\<lambda>i j. real_part dm [i, j]) (\<lambda>i j. imag_part dm [i, j]) (idx ! 1) * 2)\<rparr>"
  using assms by (simp add: eval_rho_def grid_shape_3d eval_rho_complex_def Let_def)

text \<open>
  Claim C1: for an orbital array of shape \<open>(ngrids, nao)\<close> and a density matrix of shape
  \<open>(nao, nao)\<close>, of any dtype and any symmetry, the value-only \<open>eval_rho\<close> (default
  table) returns a real array of length \<open>ngrids\<close> whose entry at each grid point \<open>p\<close> is
  the four-term combination of the four real contractions, and that entry is the real part
  of the expectation of the density matrix in the orbital values of \<open>p\<close>.
\<close>

theorem eval_rho_value_only:
  assumes "shape ao = [ngrids, nao]" and "shape dm = [nao, nao]"
  shows "\<exists>rho f. eval_rho mol_eval_rho B mol ao dm None False verbose = Inr rho \<and>
           shape rho = [ngrids] \<and> data rho = Float64 f \<and>
           (\<forall>p. real_part rho [p] =
              four_term nao (\<lambda>p i. real_part ao [p, i]) (\<lambda>p i. imag_part ao [p, i])
                (dot_ao_dm B mol (\<lambda>p i. real_part ao [p, i]) (\<lambda>i j. real_part dm [i, j])
                   nao ngrids (default_non0tab B mol ngrids None))
                (dot_ao_dm B mol (\<lambda>p i. imag_part ao [p, i]) (\<lambda>i j. real_part dm [i, j])
                   nao ngrids (default_non0tab B mol ngrids None))
                (dot_ao_dm B mol (\<lambda>p i. real_part ao [p, i]) (\<lambda>i j. imag_part dm [i, j])
                   nao ngrids (default_non0tab B mol ngrids None))
                (dot_ao_dm B mol (\<lambda>p i. imag_part ao [p, i]) (\<lambda>i j. imag_part dm [i, j])
                   nao ngrids (default_non0tab B mol ngrids None)) p \<and>
              real_part rho [p] =
                Re (quad_form nao (\<lambda>i. elem ao [p, i]) (\<lambda>i j. elem dm [i, j])))"
proof -
  define f where "f = (\<lambda>idx.
      contract_rho B mol nao ngrids (default_non0tab B mol ngrids None)
        (\<lambda>p j. real_part ao [p, j]) (\<lambda>p j. imag_part ao [p, j])
        (\<lambda>i j. real_part dm [i, j]) (\<lambda>i j. imag_part dm [i, j]) (idx ! 0))"
  define rho where "rho = \<lparr>shape = [ngrids], data = Float64 f\<rparr>"
  have ret: "eval_rho mol_eval_rho B mol ao dm None False verbose = Inr rho"
    unfolding rho_def f_def by (rule eval_rho_value_eq [OF assms])
  have val: "real_part rho [p] =
      contract_rho B mol nao ngrids (default_non0tab B mol ngrids None)
        (\<lambda>p j. real_part ao [p, j]) (\<lambda>p j. imag_part ao [p, j])
        (\<lambda>i j. real_part dm [i, j]) (\<lambda>i j. imag_part dm [i, j]) p" for p
    by (simp add: rho_def f_def real_part_Float64)
  have four: "real_part rho [p] =
      four_term nao (\<lambda>p i. real_part ao [p, i]) (\<lambda>p i. imag_part ao [p, i])
        (dot_ao_dm B mol (\<lambda>p i. real_part ao [p, i]) (\<lambda>i j. real_part dm [i, j])
           nao ngrids (default_non0tab B mol ngrids None))
        (dot_ao_dm B mol (\<lambda>p i. imag_part ao [p, i]) (\<lambda>i j. real_part dm [i, j])
           nao ngrids (default_non0tab B mol ngrids None))
        (dot_ao_dm B mol (\<lambda>p i. real_part ao [p, i]) (\<lambda>i j. imag_part dm [i, j])
           nao ngrids (default_non0tab B mol ngrids None))
        (dot_ao_dm B mol (\<lambda>p i. imag_part ao [p, i]) (\<lambda>i j. imag_part dm [i, j])
           nao ngrids (default_non0tab B mol ngrids None)) p" for p
    unfolding val by (rule contract_rho_four_term)
  have quad: "real_part rho [p] =
      Re (quad_form nao (\<lambda>i. elem ao [p, i]) (\<lambda>i j. elem dm [i, j]))" for p
    unfolding val elem_Complex by (rule contract_rho_quad_form)
  have "shape rho = [ngrids]" and "data rho = Float64 f"
    by (simp_all add: rho_def)
  with ret four quad show ?thesis
    by blast
qed

theorem eval_rho_value_only_witness:
  "shape (complex_array2 [[1, \<i>]]) = [1, 2] \<and>
   shape (complex_array2 [[0, \<i>], [- \<i>, 0]]) = [2, 2] \<and>
   (\<exists>rho f. eval_rho no_eval_rho 96 cubic_cell (complex_array2 [[1, \<i>]])
               (complex_array2 [[0, \<i>], [- \<i>, 0]]) None False () = Inr rho \<and>
            shape rho = [1] \<and> data rho = Float64 f \<and> real_part rho [0] = 2)"
proof -
  have s1: "shape (complex_array2 [[1, \<i>]]) = [1, 2]"
    and s2: "shape (complex_array2 [[0, \<i>], [- \<i>, 0]]) = [2, 2]"
    by (simp_all add: complex_array2_def)
  have q: "Re (quad_form 2 (\<lambda>i. elem (complex_array2 [[1, \<i>]]) [0, i])
                 (\<lambda>i j. elem (complex_array2 [[0, \<i>], [- \<i>, 0]]) [i, j])) = 2"
    by (simp add: quad_form_def complex_array2_def elem_Complex128 numeral_2_eq_2)
  from eval_rho_value_only [OF s1 s2, of no_eval_rho 96 cubic_cell "()"] q
  show ?thesis
    using s1 s2 by metis
qed

text \<open>
  The two-function scenario of the specification's section 8: the Hermitian matrix with
  off-diagonal entries \<open>1 + 2j\<close> and \<open>1 - 2j\<close> and the real orbital values 1 and 2
  give the density \<open>2 \<cdot> Re(1 \<cdot> 2 \<cdot> (1 + 2j)) = 4\<close>.
\<close>

lemma two_function_scenario:
  "\<exists>rho. eval_rho no_eval_rho 96 cubic_cell (complex_array2 [[1, 2]])
            (complex_array2 [[0, 1 + 2 * \<i>], [1 - 2 * \<i>, 0]]) None False () = Inr rho \<and>
         real_part rho [0] = 4"
proof -
  have s1: "shape (complex_array2 [[1, 2]]) = [1, 2]"
    and s2: "shape (complex_array2 [[0, 1 + 2 * \<i>], [1 - 2 * \<i>, 0]]) = [2, 2]"
    by (simp_all add: complex_array2_def)
  have "contract_rho 96 cubic_cell 2 1 (default_non0tab 96 cubic_cell 1 None)
          (\<lambda>p j. real_part (complex_array2 [[1, 2]]) [p, j])
          (\<lambda>p j. imag_part (complex_array2 [[1, 2]]) [p, j])
          (\<lambda>i j. real_part (complex_array2 [[0, 1 + 2 * \<i>], [1 - 2 * \<i>, 0]]) [i, j])
          (\<lambda>i j. imag_part (complex_array2 [[0, 1 + 2 * \<i>], [1 - 2 * \<i>, 0]]) [i, j]) 0 = 4"
    by (simp add: contract_rho_quad_form quad_form_def complex_array2_def real_part_def
        imag_part_def numeral_2_eq_2)
  then show ?thesis
    unfolding eval_rho_value_eq [OF s1 s2] by (simp add: real_part_Float64)
qed

text \<open>
  Claim C7: in gradient mode, for an orbital array of shape \<open>(n, ngrids, nao)\<close> with
  \<open>n \<ge> 4\<close>, row 0 of the density is the combination of the four contractions of
  \<open>ao[0]\<close>, without a factor, and each row \<open>i\<close> of 1, 2, 3 is twice the same combination
  of the four contractions of \<open>ao[i]\<close>.
\<close>

theorem eval_rho_gradient_rows:
  assumes "shape ao = [n, ngrids, nao]" and "4 \<le> n" and "shape dm = [nao, nao]"
  shows "\<exists>rho. eval_rho mol_eval_rho B mol ao dm non0tab True verbose = Inr rho \<and>
           shape rho = [4, ngrids] \<and>
           (\<forall>p. real_part rho [0, p] =
                  contract_rho B mol nao ngrids (default_non0tab B mol ngrids non0tab)
                    (\<lambda>p j. real_part ao [0, p, j]) (\<lambda>p j. imag_part ao [0, p, j])
                    (\<lambda>i j. real_part dm [i, j]) (\<lambda>i j. imag_part dm [i, j]) p) \<and>
           (\<forall>i\<in>{1, 2, 3}. \<forall>p. real_part rho [i, p] =
                  2 * contract_rho B mol nao ngrids (default_non0tab B mol ngrids non0tab)
                    (\<lambda>p j. real_part ao [i, p, j]) (\<lambda>p j. imag_part ao [i, p, j])
                    (\<lambda>i j. real_part dm [i, j]) (\<lambda>i j. imag_part dm [i, j]) p)"
proof -
  define rho where "rho = \<lparr>shape = [4, ngrids],
      data = Float64 (\<lambda>idx.
        if idx ! 0 = 0
        then contract_rho B mol nao ngrids (default_non0tab B mol ngrids non0tab)
               (\<lambda>p j. real_part ao [idx ! 0, p, j]) (\<lambda>p j. imag_part ao [idx ! 0, p, j])
               (\<lambda>i j. real_part dm [i, j]) (\<lambda>i j. imag_part dm [i, j]) (idx ! 1)
        else contract_rho B mol nao ngrids (default_non0tab B mol ngrids non0tab)
               (\<lambda>p j. real_part ao [idx ! 0, p, j]) (\<lambda>p j. imag_part ao [idx ! 0, p, j])
               (\<lambda>i j. real_part dm [i, j]) (\<lambda>i j. imag_part dm [i, j]) (idx ! 1) * 2)\<rparr>"
  have ret: "eval_rho mol_eval_rho B mol ao dm non0tab True verbose = Inr rho"
    unfolding rho_def by (rule eval_rho_gradient_eq [OF assms])
  have "shape rho = [4, ngrids]"
    by (simp add: rho_def)
  moreover have "real_part rho [0, p] =
      contract_rho B mol nao ngrids (default_non0tab B mol ngrids non0tab)
        (\<lambda>p j. real_part ao [0, p, j]) (\<lambda>p j. imag_part ao [0, p, j])
        (\<lambda>i j. real_part dm [i, j]) (\<lambda>i j. imag_part dm [i, j]) p" for p
    by (simp add: rho_def real_part_Float64)
  moreover have "real_part rho [i, p] =
      2 * contract_rho B mol nao ngrids (default_non0tab B mol ngrids non0tab)
        (\<lambda>p j. real_part ao [i, p, j]) (\<lambda>p j. imag_part ao [i, p, j])
        (\<lambda>i j. real_part dm [i, j]) (\<lambda>i j. imag_part dm [i, j]) p" if "i \<in> {1, 2, 3}" for i p
    using that by (auto simp add: rho_def real_part_Float64)
  ultimately show ?thesis
    using ret by blast
qed

theorem eval_rho_gradient_rows_witness:
  "shape (complex_array3 [[[1]], [[\<i>]], [[2]], [[1 + \<i>]]]) = [4, 1, 1] \<and> (4::nat) \<le> 4 \<and>
   shape (complex_array2 [[1]]) = [1, 1] \<and>
   (\<exists>rho. eval_rho no_eval_rho 96 cubic_cell
             (complex_array3 [[[1]], [[\<i>]], [[2]], [[1 + \<i>]]])
             (complex_array2 [[1]]) None True () = Inr rho \<and>
          real_part rho [0, 0] = 1 \<and> real_part rho [1, 0] = 2 \<and>
          real_part rho [2, 0] = 8 \<and> real_part rho [3, 0] = 4)"
proof -
  have s1: "shape (complex_array3 [[[1]], [[\<i>]], [[2]], [[1 + \<i>]]]) = [4, 1, 1]"
    and s2: "shape (complex_array2 [[1]]) = [1, 1]"
    by (simp_all add: complex_array3_def complex_array2_def)
  have n: "(4::nat) \<le> 4"
    by simp
  have c: "contract_rho 96 cubic_cell (Suc 0) (Suc 0) (default_non0tab 96 cubic_cell (Suc 0) None)
             (\<lambda>p j. real_part (complex_array3 [[[1]], [[\<i>]], [[2]], [[1 + \<i>]]]) [i, p, j])
             (\<lambda>p j. imag_part (complex_array3 [[[1]], [[\<i>]], [[2]], [[1 + \<i>]]]) [i, p, j])
             (\<lambda>i j. real_part (complex_array2 [[1]]) [i, j])
             (\<lambda>i j. imag_part (complex_array2 [[1]]) [i, j]) 0
           = [1, 1, 4, 2] ! i" if "i \<in> {0, 1, 2, 3}" for i
    using that
    by (auto simp add: contract_rho_def einsum_pi_pi_p_def dot_ao_dm_default
        complex_array3_def complex_array2_def real_part_def imag_part_def)
  from eval_rho_gradient_rows [OF s1 n s2, of no_eval_rho 96 cubic_cell None "()"]
  obtain rho where
    ret: "eval_rho no_eval_rho 96 cubic_cell
            (complex_array3 [[[1]], [[\<i>]], [[2]], [[1 + \<i>]]])
            (complex_array2 [[1]]) None True () = Inr rho"
    and r0: "\<And>p. real_part rho [0, p] =
        contract_rho 96 cubic_cell 1 1 (default_non0tab 96 cubic_cell 1 None)
          (\<lambda>p j. real_part (complex_array3 [[[1]], [[\<i>]], [[2]], [[1 + \<i>]]]) [0, p, j])
          (\<lambda>p j. imag_part (complex_array3 [[[1]], [[\<i>]], [[2]], [[1 + \<i>]]]) [0, p, j])
          (\<lambda>i j. real_part (complex_array2 [[1]]) [i, j])
          (\<lambda>i j. imag_part (complex_array2 [[1]]) [i, j]) p"
    and ri: "\<And>i p. i \<in> {1, 2, 3} \<Longrightarrow> real_part rho [i, p] =
        2 * contract_rho 96 cubic_cell 1 1 (default_non0tab 96 cubic_cell 1 None)
          (\<lambda>p j. real_part (complex_array3 [[[1]], [[\<i>]], [[2]], [[1 + \<i>]]]) [i, p, j])
          (\<lambda>p j. imag_part (complex_array3 [[[1]], [[\<i>]], [[2]], [[1 + \<i>]]]) [i, p, j])
          (\<lambda>i j. real_part (complex_array2 [[1]]) [i, j])
          (\<lambda>i j. imag_part (complex_array2 [[1]]) [i, j]) p"
    by blast
  have "real_part rho [0, 0] = 1"
    by (simp add: r0 c)
  moreover have "real_part rho [1, 0] = 2"
    by (simp add: ri c)
  moreover have "real_part rho [2, 0] = 8"
    by (simp add: ri c)
  moreover have "real_part rho [3, 0] = 4"
    by (simp add: ri c)
  ultimately show ?thesis
    using s1 s2 ret by blast
qed

text \<open>
  Claim C10: every call of \<open>eval_rho\<close>, whatever the dtype of the orbital array, is
  computed by the branch of the four real contractions; the molecular routine of the
  \<open>else\<close> branch is never called.
\<close>

theorem eval_rho_always_complex_path:
  "eval_rho mol_eval_rho B mol ao dm non0tab isgga verbose =
     (case grid_shape ao isgga of
        Inl e \<Rightarrow> Inl e
      | Inr (ngrids, nao) \<Rightarrow>
          eval_rho_complex B mol ao dm (default_non0tab B mol ngrids non0tab) isgga ngrids nao)"
  by (simp add: eval_rho_def split: sum.splits)

subsection \<open>The potential matrix\<close>

lemma assemble_mat_hermitian:
  "elem (assemble_mat B mol nao ngrids tab ar ai wr wi) [i, j] =
     cnj (elem (assemble_mat B mol nao ngrids tab ar ai wr wi) [j, i])"
  by (simp add: assemble_mat_def elem_Complex128 Let_def)

lemma eval_mat_complex_assembled:
  "eval_mat_complex B mol ao weight rho vrho vsigma tab isgga ngrids nao = Inr M \<Longrightarrow>
   \<exists>ar ai wr wi. M = assemble_mat B mol nao ngrids tab ar ai wr wi"
  by (auto simp: eval_mat_complex_def Let_def split: if_splits)

lemma eval_mat_value_eq:
  assumes "shape ao = [ngrids, nao]" and "0 < ngrids" and "is_complex128 ao"
  shows "eval_mat mol_eval_mat B mol ao weight rho vrho vsigma non0tab False verbose =
     Inr (assemble_mat B mol nao ngrids (default_non0tab B mol ngrids non0tab)
            (\<lambda>p i. real_part ao [p, i]) (\<lambda>p i. imag_part ao [p, i])
            (\<lambda>p i. real_part ao [p, i] * (1 / 2 * weight p * vrho p))
            (\<lambda>p i. imag_part ao [p, i] * (1 / 2 * weight p * vrho p)))"
proof -
  obtain ao0 where a0: "item ao 0 = Inr ao0"
    using assms by (simp add: item_def)
  with assms have c: "is_complex128 ao0"
    by (simp add: item_is_complex128)
  show ?thesis
    using assms a0 c
    by (simp add: eval_mat_def grid_shape_2d eval_mat_complex_def Let_def)
qed

lemma eval_mat_gradient_eq:
  assumes "shape ao = [n, ngrids, nao]" and "0 < n" and "is_complex128 ao"
    and "shape rho = [n, ngrids]"
  shows "eval_mat mol_eval_mat B mol ao weight rho vrho (Some vs) non0tab True verbose =
     Inr (assemble_mat B mol nao ngrids (default_non0tab B mol ngrids non0tab)
            (\<lambda>p i. real_part ao [0, p, i]) (\<lambda>p i. imag_part ao [0, p, i])
            (\<lambda>p i. Re (einsum_npi_np_pi n ao (wv_gga weight rho vrho vs) p i))
            (\<lambda>p i. Im (einsum_npi_np_pi n ao (wv_gga weight rho vrho vs) p i)))"
proof -
  obtain ao0 where a0: "item ao 0 = Inr ao0"
    using assms by (simp add: item_def)
  with assms have c: "is_complex128 ao0"
    by (simp add: item_is_complex128)
  show ?thesis
    using assms a0 c
    by (simp add: eval_mat_def grid_shape_3d eval_mat_complex_def Let_def)
qed

lemma overlap_entry:
  "elem (assemble_mat B mol nao ngrids (default_non0tab B mol ngrids None)
            (\<lambda>p i. Re (A p i)) (\<lambda>p i. Im (A p i))
            (\<lambda>p i. Re (A p i) * (1 / 2 * weight p * c))
            (\<lambda>p i. Im (A p i) * (1 / 2 * weight p * c))) [i, j]
   = complex_of_real c * (\<Sum>p<ngrids. complex_of_real (weight p) * cnj (A p i) * A p j)"
  apply (simp add: assemble_mat_def elem_Complex128 Let_def dot_ao_ao_default)
  apply (simp add: complex_eq_iff sum_distrib_left sum.distrib [symmetric]
      sum_subtractf [symmetric])
  apply (auto intro!: sum.cong simp: algebra_simps)
  done

text \<open>
  Claim C2: whenever \<open>eval_mat\<close> returns a matrix for complex orbitals, in value-only or in
  gradient mode and for any weights, density, potential derivatives and shell table, the
  entry \<open>[i, j]\<close> of the matrix is the complex conjugate of its entry \<open>[j, i]\<close>.
\<close>

theorem eval_mat_hermitian:
  assumes "eval_mat mol_eval_mat B mol ao weight rho vrho vsigma non0tab isgga verbose = Inr M"
    and "is_complex128 ao"
  shows "elem M [i, j] = cnj (elem M [j, i])"
proof -
  from assms obtain ngrids nao tab where
    "eval_mat_complex B mol ao weight rho vrho vsigma tab isgga ngrids nao = Inr M"
    by (auto simp: eval_mat_def Let_def item_is_complex128 split: sum.splits if_splits)
  then obtain ar ai wr wi where "M = assemble_mat B mol nao ngrids tab ar ai wr wi"
    using eval_mat_complex_assembled by blast
  then show ?thesis
    by (simp only: assemble_mat_hermitian [symmetric])
qed

theorem eval_mat_hermitian_witness:
  "is_complex128 (complex_array2 [[1, \<i>]]) \<and>
   (\<exists>M. eval_mat no_eval_mat 96 cubic_cell (complex_array2 [[1, \<i>]]) ones
          (real_array2 [[1]]) ones None None False None = Inr M \<and>
        elem M [0, 1] = cnj (elem M [1, 0])) \<and>
   is_complex128 (complex_array3 [[[1, \<i>]], [[\<i>, 2]], [[2, 0]], [[1 + \<i>, 1]]]) \<and>
   (\<exists>M. eval_mat no_eval_mat 96 cubic_cell
          (complex_array3 [[[1, \<i>]], [[\<i>, 2]], [[2, 0]], [[1 + \<i>, 1]]]) ones
          (real_array2 [[1], [2], [3], [4]]) ones (Some ones) None True None = Inr M \<and>
        elem M [0, 1] = cnj (elem M [1, 0]))"
proof -
  have c: "is_complex128 (complex_array2 [[1, \<i>]])"
    by (simp add: is_complex128_def complex_array2_def)
  have s: "shape (complex_array2 [[1, \<i>]]) = [1, 2]"
    by (simp add: complex_array2_def)
  have "0 < (1::nat)"
    by simp
  from eval_mat_value_eq [OF s this c] obtain M where
    ret: "eval_mat no_eval_mat 96 cubic_cell (complex_array2 [[1, \<i>]]) ones
            (real_array2 [[1]]) ones None None False None = Inr M"
    by blast
  have c3: "is_complex128 (complex_array3 [[[1, \<i>]], [[\<i>, 2]], [[2, 0]], [[1 + \<i>, 1]]])"
    by (simp add: is_complex128_def complex_array3_def)
  have s3: "shape (complex_array3 [[[1, \<i>]], [[\<i>, 2]], [[2, 0]], [[1 + \<i>, 1]]]) = [4, 1, 2]"
    by (simp add: complex_array3_def)
  have r3: "shape (real_array2 [[1], [2], [3], [4]]) = [4, 1]"
    by (simp add: real_array2_def)
  have "0 < (4::nat)"
    by simp
  from eval_mat_gradient_eq [OF s3 this c3 r3] obtain M3 where
    ret3: "eval_mat no_eval_mat 96 cubic_cell
            (complex_array3 [[[1, \<i>]], [[\<i>, 2]], [[2, 0]], [[1 + \<i>, 1]]]) ones
            (real_array2 [[1], [2], [3], [4]]) ones (Some ones) None True None = Inr M3"
    by blast
  from eval_mat_hermitian [OF ret c, of 0 1] eval_mat_hermitian [OF ret3 c3, of 0 1]
    ret ret3 c c3
  show ?thesis
    by blast
qed

text \<open>
  Claim C6: in value-only mode with the default shell table, for a complex orbital array
  \<open>A\<close> of shape \<open>(ngrids, nao)\<close> with at least one grid point, weights \<open>w\<close> and the
  constant potential derivative \<open>c\<close>, \<open>eval_mat\<close> returns the \<open>nao \<times> nao\<close> matrix whose
  entry \<open>[i, j]\<close> is \<open>c\<close> times the sum over the grid of \<open>w\<^sub>p conj(A\<^sub>p\<^sub>i) A\<^sub>p\<^sub>j\<close>: the factor
  one half and the doubling cancel.
\<close>

theorem eval_mat_constant_vrho:
  assumes "shape ao = [ngrids, nao]" and "0 < ngrids" and "is_complex128 ao"
  shows "\<exists>M. eval_mat mol_eval_mat B mol ao weight rho (\<lambda>p. c) vsigma None False verbose = Inr M \<and>
           shape M = [nao, nao] \<and>
           (\<forall>i j. elem M [i, j] =
              complex_of_real c *
              (\<Sum>p<ngrids. complex_of_real (weight p) * cnj (elem ao [p, i]) * elem ao [p, j]))"
proof -
  define M where "M = assemble_mat B mol nao ngrids (default_non0tab B mol ngrids None)
            (\<lambda>p i. Re (elem ao [p, i])) (\<lambda>p i. Im (elem ao [p, i]))
            (\<lambda>p i. Re (elem ao [p, i]) * (1 / 2 * weight p * c))
            (\<lambda>p i. Im (elem ao [p, i]) * (1 / 2 * weight p * c))"
  have ret: "eval_mat mol_eval_mat B mol ao weight rho (\<lambda>p. c) vsigma None False verbose = Inr M"
    unfolding M_def using eval_mat_value_eq [OF assms] by (simp add: elem_def)
  have "shape M = [nao, nao]"
    by (simp add: M_def assemble_mat_def Let_def)
  moreover have "elem M [i, j] =
      complex_of_real c *
      (\<Sum>p<ngrids. complex_of_real (weight p) * cnj (elem ao [p, i]) * elem ao [p, j])" for i j
    unfolding M_def by (rule overlap_entry)
  ultimately show ?thesis
    using ret by blast
qed

theorem eval_mat_constant_vrho_witness:
  "shape (complex_array2 [[1, \<i>]]) = [1, 2] \<and> 0 < (1::nat) \<and>
   is_complex128 (complex_array2 [[1, \<i>]]) \<and>
   (\<exists>M. eval_mat no_eval_mat 96 cubic_cell (complex_array2 [[1, \<i>]]) ones
          (real_array2 [[1]]) (\<lambda>p. 3) None None False None = Inr M \<and>
        shape M = [2, 2] \<and>
        elem M [0, 0] = 3 \<and> elem M [0, 1] = 3 * \<i> \<and>
        elem M [1, 0] = - (3 * \<i>) \<and> elem M [1, 1] = 3)"
proof -
  have c: "is_complex128 (complex_array2 [[1, \<i>]])"
    by (simp add: is_complex128_def complex_array2_def)
  have s: "shape (complex_array2 [[1, \<i>]]) = [1, 2]"
    by (simp add: complex_array2_def)
  have n: "0 < (1::nat)"
    by simp
  from eval_mat_constant_vrho [OF s n c, of no_eval_mat 96 cubic_cell ones "real_array2 [[1]]" 3
      None None]
  obtain M where
    ret: "eval_mat no_eval_mat 96 cubic_cell (complex_array2 [[1, \<i>]]) ones
            (real_array2 [[1]]) (\<lambda>p. 3) None None False None = Inr M"
    and sh: "shape M = [2, 2]"
    and en: "\<And>i j. elem M [i, j] =
              complex_of_real 3 *
              (\<Sum>p<1. complex_of_real (ones p) * cnj (elem (complex_array2 [[1, \<i>]]) [p, i]) *
                        elem (complex_array2 [[1, \<i>]]) [p, j])"
    by blast
  have "elem M [0, 0] = 3" and "elem M [0, 1] = 3 * \<i>"
    and "elem M [1, 0] = - (3 * \<i>)" and "elem M [1, 1] = 3"
    by (simp_all add: en ones_def complex_array2_def elem_Complex128)
  with s n c ret sh show ?thesis
    by blast
qed

text \<open>
  Claim C8: for complex orbitals of gradient shape \<open>(n, ngrids, nao)\<close>, \<open>n > 0\<close>, and
  \<open>isgga = True\<close>, \<open>eval_mat\<close> ends with AssertionError exactly when \<open>vsigma\<close> is
  \<open>None\<close> or \<open>rho\<close> is not 2-dimensional.
\<close>

theorem eval_mat_assertion:
  assumes "shape ao = [n, ngrids, nao]" and "0 < n" and "is_complex128 ao"
  shows "(eval_mat mol_eval_mat B mol ao weight rho vrho vsigma non0tab True verbose
            = Inl AssertionError)
         \<longleftrightarrow> (vsigma = None \<or> length (shape rho) \<noteq> 2)"
proof -
  obtain ao0 where a0: "item ao 0 = Inr ao0"
    using assms by (simp add: item_def)
  with assms have c: "is_complex128 ao0"
    by (simp add: item_is_complex128)
  show ?thesis
    using assms a0 c
    by (auto simp: eval_mat_def grid_shape_3d eval_mat_complex_def Let_def)
qed

theorem eval_mat_assertion_witness:
  "shape (complex_array3 [[[1]], [[\<i>]], [[2]], [[1 + \<i>]]]) = [4, 1, 1] \<and> 0 < (4::nat) \<and>
   is_complex128 (complex_array3 [[[1]], [[\<i>]], [[2]], [[1 + \<i>]]]) \<and>
   eval_mat no_eval_mat 96 cubic_cell (complex_array3 [[[1]], [[\<i>]], [[2]], [[1 + \<i>]]])
     ones (real_array2 [[1], [0], [0], [0]]) ones None None True None = Inl AssertionError \<and>
   eval_mat no_eval_mat 96 cubic_cell (complex_array3 [[[1]], [[\<i>]], [[2]], [[1 + \<i>]]])
     ones (real_array2 [[1], [0], [0], [0]]) ones (Some ones) None True None
     \<noteq> Inl AssertionError"
proof -
  have s: "shape (complex_array3 [[[1]], [[\<i>]], [[2]], [[1 + \<i>]]]) = [4, 1, 1]"
    by (simp add: complex_array3_def)
  have n: "0 < (4::nat)"
    by simp
  have c: "is_complex128 (complex_array3 [[[1]], [[\<i>]], [[2]], [[1 + \<i>]]])"
    by (simp add: is_complex128_def complex_array3_def)
  have r: "length (shape (real_array2 [[1], [0], [0], [0]])) = 2"
    by (simp add: real_array2_def)
  from eval_mat_assertion [OF s n c, of no_eval_mat 96 cubic_cell ones
      "real_array2 [[1], [0], [0], [0]]" ones None None None]
    eval_mat_assertion [OF s n c, of no_eval_mat 96 cubic_cell ones
      "real_array2 [[1], [0], [0], [0]]" ones "Some ones" None None]
  show ?thesis
    using s n c r by simp
qed

text \<open>
  Claim C4 is not what the code does: for real orbitals the molecular routine is called
  with \<open>vsigma=None, non0tab=None, isgga=False, verbose=None\<close>, whatever the caller
  passed. In gradient mode the caller's \<open>vsigma\<close>, table and mode are lost; the same call
  is made in value-only mode.
\<close>

theorem eval_mat_real_orbitals_call:
  "eval_mat mol_eval_mat B mol \<lparr>shape = [Suc n, g, a], data = Float64 f\<rparr> weight rho vrho
     vsigma non0tab True verbose =
   mol_eval_mat mol \<lparr>shape = [Suc n, g, a], data = Float64 f\<rparr> weight rho vrho
     None None False None \<and>
   eval_mat mol_eval_mat B mol \<lparr>shape = [Suc g, a], data = Float64 f\<rparr> weight rho vrho
     vsigma non0tab False verbose =
   mol_eval_mat mol \<lparr>shape = [Suc g, a], data = Float64 f\<rparr> weight rho vrho
     None None False None"
  by (simp add: eval_mat_def grid_shape_def item_def unpack2_def is_complex128_def)

end
